theory Spec2Isabelle
  imports Main
begin

section \<open>The address pattern\<close>

text \<open>
  The schema of \<^verbatim>\<open>AddMachineForm.js\<close> uses one regular expression, twice:
  \<^verbatim>\<open>/^([0-9A-Fa-f]{2}:){5}([0-9A-Fa-f]{2})$/\<close>.
  The constructs it is written with are character classes of ranges, a literal
  character, sequencing and bounded repetition \<^verbatim>\<open>r{n}\<close>. None of them
  backtracks, so matching consumes a prefix of the input or fails.
\<close>

datatype re =
    Cls "(char \<times> char) list"
  | Lit char
  | Seq re re
  | Rep re nat

definition in_range :: "char \<Rightarrow> char \<times> char \<Rightarrow> bool" where
  "in_range c r = ((of_char (fst r) :: nat) \<le> of_char c \<and> (of_char c :: nat) \<le> of_char (snd r))"

fun rep_consume :: "(string \<Rightarrow> string option) \<Rightarrow> nat \<Rightarrow> string \<Rightarrow> string option" where
  "rep_consume f 0 s = Some s"
| "rep_consume f (Suc n) s = (case f s of None \<Rightarrow> None | Some s' \<Rightarrow> rep_consume f n s')"

primrec consume :: "re \<Rightarrow> string \<Rightarrow> string option" where
  "consume (Cls rs) = (\<lambda>s. case s of [] \<Rightarrow> None
       | c # cs \<Rightarrow> if list_ex (in_range c) rs then Some cs else None)"
| "consume (Lit a) = (\<lambda>s. case s of [] \<Rightarrow> None
       | c # cs \<Rightarrow> if c = a then Some cs else None)"
| "consume (Seq r1 r2) = (\<lambda>s. case consume r1 s of None \<Rightarrow> None | Some s' \<Rightarrow> consume r2 s')"
| "consume (Rep r n) = (\<lambda>s. rep_consume (consume r) n s)"

text \<open>The pattern is anchored at both ends (\<^verbatim>\<open>^\<close> ... \<^verbatim>\<open>$\<close>, no multiline
  flag): the whole input has to be consumed.\<close>

definition re_test :: "re \<Rightarrow> string \<Rightarrow> bool" where
  "re_test r s = (consume r s = Some [])"

definition hex_digit :: re where
  "hex_digit = Cls [(CHR ''0'', CHR ''9''), (CHR ''A'', CHR ''F''), (CHR ''a'', CHR ''f'')]"

definition mac_regex :: re where
  "mac_regex = Seq (Rep (Seq (Rep hex_digit 2) (Lit CHR '':'')) 5) (Rep hex_digit 2)"

text \<open>
  In words: an octet is two hexadecimal digits, of either case. The lemma
  \<open>mac_regex_iff\<close> below shows that the pattern accepts exactly five octets, each
  followed by a colon, and a sixth octet.
\<close>

definition hex_char :: "char \<Rightarrow> bool" where
  "hex_char c = (c \<in> set ''0123456789ABCDEFabcdef'')"

definition is_octet :: "string \<Rightarrow> bool" where
  "is_octet u = (length u = 2 \<and> list_all hex_char u)"

section \<open>The validation library, as far as the schema uses it\<close>

text \<open>
  The schema is written with the builder calls \<^verbatim>\<open>Yup.string()\<close>,
  \<^verbatim>\<open>.required(msg)\<close>, \<^verbatim>\<open>.matches(regex, msg)\<close>,
  \<^verbatim>\<open>.when(key, {is, then})\<close>, \<^verbatim>\<open>Yup.array().of(schema)\<close> and
  \<^verbatim>\<open>Yup.object().shape(fields)\<close>. A value handed to a string schema is a
  string or is absent (\<^verbatim>\<open>undefined\<close>), written \<open>None\<close>.
\<close>

type_synonym yup_value = "string option"

datatype string_schema =
    Yup_string
  | Yup_required string_schema string
  | Yup_matches string_schema re string
  | Yup_when string_schema string "yup_value \<Rightarrow> bool" string_schema

datatype string_test = Required string | Matches re string

text \<open>
  \<^verbatim>\<open>when\<close> resolves against the sibling fields at validation time: where
  \<^verbatim>\<open>is\<close> holds of the sibling's value the tests of \<^verbatim>\<open>then\<close> are added
  after the schema's own tests, elsewhere the schema stays as it is.
\<close>

fun resolve :: "(string \<Rightarrow> yup_value) \<Rightarrow> string_schema \<Rightarrow> string_test list" where
  "resolve sib Yup_string = []"
| "resolve sib (Yup_required s msg) = resolve sib s @ [Required msg]"
| "resolve sib (Yup_matches s r msg) = resolve sib s @ [Matches r msg]"
| "resolve sib (Yup_when s key is_fn then_s) =
     resolve sib s @ (if is_fn (sib key) then resolve sib then_s else [])"

text \<open>
  \<^verbatim>\<open>required\<close> rejects an absent value and the empty string. \<^verbatim>\<open>matches\<close>
  lets an absent value through and tests every string, the empty one too
  (\<^verbatim>\<open>excludeEmptyString\<close> is not set in the source).
\<close>

fun run_test :: "string_test \<Rightarrow> yup_value \<Rightarrow> string list" where
  "run_test (Required msg) None = [msg]"
| "run_test (Required msg) (Some s) = (if s = [] then [msg] else [])"
| "run_test (Matches r msg) None = []"
| "run_test (Matches r msg) (Some s) = (if re_test r s then [] else [msg])"

definition validate_string :: "(string \<Rightarrow> yup_value) \<Rightarrow> string_schema \<Rightarrow> yup_value \<Rightarrow> string list" where
  "validate_string sib sch v = concat (map (\<lambda>t. run_test t v) (resolve sib sch))"

text \<open>The fields of an object schema, the values of a form and the place of an error.\<close>

datatype field_schema =
    FString string_schema
  | FArray string_schema
  | FObject "(string \<times> string_schema) list"

datatype form_value =
    Single yup_value
  | Many "yup_value list"
  | Nested "string \<Rightarrow> yup_value"

datatype path = Field string | Index string nat | Inner string string

definition single_of :: "form_value \<Rightarrow> yup_value" where
  "single_of v = (case v of Single x \<Rightarrow> x | _ \<Rightarrow> None)"

definition type_error :: string where
  "type_error = ''typeError''"

text \<open>
  An array schema validates every element with the element schema and reports each
  failure under the element's index; an absent array has no error. An object schema
  validates every field of its shape against the property of that name; an absent
  object is validated as the object without properties. A value of the wrong kind is
  a type error of the field.
\<close>

definition validate_shape :: "string \<Rightarrow> (string \<times> string_schema) list \<Rightarrow> (string \<Rightarrow> yup_value)
    \<Rightarrow> (path \<times> string) list" where
  "validate_shape k shape obj =
     concat (map (\<lambda>(k', sch). map (\<lambda>m. (Inner k k', m)) (validate_string obj sch (obj k'))) shape)"

fun validate_field :: "(string \<Rightarrow> form_value) \<Rightarrow> string \<Rightarrow> field_schema \<Rightarrow> (path \<times> string) list" where
  "validate_field d k (FString sch) =
     (case d k of
        Single v \<Rightarrow> map (\<lambda>m. (Field k, m)) (validate_string (\<lambda>k'. single_of (d k')) sch v)
      | _ \<Rightarrow> [(Field k, type_error)])"
| "validate_field d k (FArray sch) =
     (case d k of
        Many vs \<Rightarrow> concat (map (\<lambda>(i, v). map (\<lambda>m. (Index k i, m))
                       (validate_string (\<lambda>_. None) sch v)) (enumerate 0 vs))
      | Single None \<Rightarrow> []
      | _ \<Rightarrow> [(Field k, type_error)])"
| "validate_field d k (FObject shape) =
     (case d k of
        Nested obj \<Rightarrow> validate_shape k shape obj
      | Single None \<Rightarrow> validate_shape k shape (\<lambda>_. None)
      | _ \<Rightarrow> [(Field k, type_error)])"

definition validate :: "(string \<times> field_schema) list \<Rightarrow> (string \<Rightarrow> form_value) \<Rightarrow> (path \<times> string) list" where
  "validate shape d = concat (map (\<lambda>(k, sch). validate_field d k sch) shape)"

section \<open>generateMachineSchema\<close>

definition generateMachineSchema :: "(string \<times> string_schema) list \<Rightarrow> (string \<times> field_schema) list" where
  "generateMachineSchema parametersSchema =
    [ (''architecture'', FString (Yup_required Yup_string ''Architecture required'')),
      (''domain'', FString (Yup_required Yup_string ''Domain required'')),
      (''extra_macs'', FArray (Yup_matches Yup_string mac_regex ''Invalid MAC address'')),
      (''hostname'', FString Yup_string),
      (''min_hwe_kernel'', FString Yup_string),
      (''pool'', FString (Yup_required Yup_string ''Resource pool required'')),
      (''power_parameters'', FObject parametersSchema),
      (''power_type'', FString (Yup_required Yup_string ''Power type required'')),
      (''pxe_mac'', FString
          (Yup_when (Yup_matches Yup_string mac_regex ''Invalid MAC address'')
             ''power_type'' (\<lambda>power_type. power_type \<noteq> Some ''ipmi'')
             (Yup_required Yup_string ''At least one MAC address required''))),
      (''zone'', FString (Yup_required Yup_string ''Zone required'')) ]"

fun path_field :: "path \<Rightarrow> string" where
  "path_field (Field k) = k"
| "path_field (Index k i) = k"
| "path_field (Inner k k') = k"

definition field_errors :: "string \<Rightarrow> (path \<times> string) list \<Rightarrow> (path \<times> string) list" where
  "field_errors k es = filter (\<lambda>e. path_field (fst e) = k) es"

section \<open>The store and the component's own state\<close>

text \<open>
  The selectors of the component read these values from the store. Domains, resource
  pools, zones and power types are objects of which the component reads the
  \<^verbatim>\<open>name\<close> only; \<open>model_id\<close> tells two objects of one name apart.
\<close>

record model =
  model_id :: nat
  name :: string

datatype machine_errors =
    NoErrors
  | ErrorString string
  | ErrorObject "(string \<times> string) list"

record store =
  architectures :: "string list"
  architecturesLoaded :: bool
  defaultMinHweKernel :: string
  defaultMinHweKernelLoaded :: bool
  domains :: "model list"
  domainsLoaded :: bool
  hweKernelsLoaded :: bool
  machineSaved :: bool
  machineSaving :: bool
  machineErrors :: machine_errors
  powerTypes :: "model list"
  powerTypesLoaded :: bool
  resourcePools :: "model list"
  resourcePoolsLoaded :: bool
  zones :: "model list"
  zonesLoaded :: bool

text \<open>
  \<^verbatim>\<open>useState\<close>: \<open>powerType\<close> starts as the empty string and is afterwards the
  result of a \<^verbatim>\<open>find\<close>, so it is a power type or nothing (\<open>None\<close> stands for
  both falsy values); \<open>savingMachine\<close> is \<^verbatim>\<open>false\<close> or a name.
\<close>

datatype saving_machine = SavingFalse | SavingName string

record local_state =
  powerType :: "model option"
  resetOnSave :: bool
  savingMachine :: saving_machine

definition initial_state :: local_state where
  "initial_state = \<lparr> powerType = None, resetOnSave = False, savingMachine = SavingFalse \<rparr>"

text \<open>
  The form's values, its initial values and the parameters of the creation command
  are objects of the same ten properties. In the form \<^verbatim>\<open>domain\<close>,
  \<^verbatim>\<open>pool\<close> and \<^verbatim>\<open>zone\<close> are names; in the command they are the results
  of \<^verbatim>\<open>find\<close>, an object or \<^verbatim>\<open>undefined\<close>.
\<close>

record ('e, 'pp) machine_fields =
  architecture :: string
  domain :: 'e
  extra_macs :: "string list"
  hostname :: string
  min_hwe_kernel :: string
  pool :: 'e
  power_parameters :: 'pp
  power_type :: string
  pxe_mac :: string
  zone :: 'e

datatype 'fp action =
    DomainFetch
  | FetchArchitectures
  | FetchDefaultMinHweKernel
  | FetchHweKernels
  | FetchPowerTypes
  | ResourcePoolFetch
  | ZoneFetch
  | MachineCreate "(model option, 'fp) machine_fields"
  | MachineCleanup
  | MessageAdd string
  | HistoryPush string

text \<open>The first effect: fetch all data required for the form.\<close>

definition fetch_effect :: "'fp action list" where
  "fetch_effect = [DomainFetch, FetchArchitectures, FetchDefaultMinHweKernel,
     FetchHweKernels, FetchPowerTypes, ResourcePoolFetch, ZoneFetch]"

text \<open>The second effect clears \<open>resetOnSave\<close> once the machine is saved.\<close>

definition reset_effect :: "store \<Rightarrow> local_state \<Rightarrow> local_state" where
  "reset_effect st ls =
     (if machineSaved st \<and> resetOnSave ls then ls\<lparr>resetOnSave := False\<rparr> else ls)"

text \<open>The template literal of the success message; \<^verbatim>\<open>false\<close> prints as its name.\<close>

definition saving_text :: "saving_machine \<Rightarrow> string" where
  "saving_text sm = (case sm of SavingFalse \<Rightarrow> ''false'' | SavingName n \<Rightarrow> n)"

definition success_message :: "local_state \<Rightarrow> string" where
  "success_message ls = saving_text (savingMachine ls) @ '' added successfully.''"

definition allLoaded :: "store \<Rightarrow> bool" where
  "allLoaded st =
     (architecturesLoaded st \<and>
      defaultMinHweKernelLoaded st \<and>
      domainsLoaded st \<and>
      hweKernelsLoaded st \<and>
      powerTypesLoaded st \<and>
      resourcePoolsLoaded st \<and>
      zonesLoaded st)"

text \<open>
  The error string. A string that is empty is falsy and leaves \<open>errors\<close> empty; an
  object is walked in the order of \<^verbatim>\<open>Object.keys\<close>, and each key is looked up
  in the object again. The list of an \<open>ErrorObject\<close> is the object's properties in
  that order.
\<close>

definition lookup_message :: "(string \<times> string) list \<Rightarrow> string \<Rightarrow> string" where
  "lookup_message kvs key = (case map_of kvs key of None \<Rightarrow> ''undefined'' | Some m \<Rightarrow> m)"

definition errors_of :: "machine_errors \<Rightarrow> string" where
  "errors_of me =
     (case me of
        NoErrors \<Rightarrow> []
      | ErrorString s \<Rightarrow> (if s \<noteq> [] then s else [])
      | ErrorObject kvs \<Rightarrow>
          foldl (\<lambda>errors key. errors @ (lookup_message kvs key @ '' '')) [] (map fst kvs))"

section \<open>The component\<close>

text \<open>
  Three helpers of the component are imported from files that are not among the
  sources; the component only passes values through them, so they are parameters:
  \<^verbatim>\<open>useAllPowerParameters(powerTypes)\<close>, the parameters schema that
  \<^verbatim>\<open>usePowerParametersSchema(powerType, generateMachineSchema)\<close> hands to
  \<^verbatim>\<open>generateMachineSchema\<close>, and \<^verbatim>\<open>formatPowerParameters\<close>.
\<close>

record ('pp, 'fp) helpers =
  useAllPowerParameters :: "model list \<Rightarrow> 'pp"
  parametersSchemaOf :: "model option \<Rightarrow> (string \<times> string_schema) list"
  formatPowerParameters :: "model option \<Rightarrow> 'pp \<Rightarrow> string \<Rightarrow> 'fp"

text \<open>\<^verbatim>\<open>(xs.length && xs[0]) || ""\<close>: zero and the empty string are falsy.\<close>

definition first_or_empty :: "string list \<Rightarrow> string" where
  "first_or_empty xs = (case xs of [] \<Rightarrow> [] | x # _ \<Rightarrow> if x \<noteq> [] then x else [])"

definition initialValues :: "('pp, 'fp) helpers \<Rightarrow> store \<Rightarrow> (string, 'pp) machine_fields" where
  "initialValues h st =
     \<lparr> architecture = first_or_empty (architectures st),
       domain = first_or_empty (map name (domains st)),
       extra_macs = [],
       hostname = [],
       min_hwe_kernel = (if defaultMinHweKernel st \<noteq> [] then defaultMinHweKernel st else []),
       pool = first_or_empty (map name (resourcePools st)),
       power_parameters = useAllPowerParameters h (powerTypes st),
       power_type = [],
       pxe_mac = [],
       zone = first_or_empty (map name (zones st)) \<rparr>"

text \<open>The props that the component hands to the form.\<close>

record 'pp formik_props =
  prop_errors :: string
  prop_initialValues :: "(string, 'pp) machine_fields"
  prop_onSaveAnalytics_action :: string
  prop_resetOnSave :: bool
  prop_saving :: bool
  prop_saved :: bool
  prop_savedRedirect :: "string option"
  prop_validationSchema :: "(string \<times> field_schema) list"

datatype 'pp view = Spinner string | FormCard "'pp formik_props"

definition AddMachineForm :: "('pp, 'fp) helpers \<Rightarrow> store \<Rightarrow> local_state \<Rightarrow> 'pp view" where
  "AddMachineForm h st ls =
     (if \<not> allLoaded st then Spinner ''Loading''
      else FormCard
        \<lparr> prop_errors = errors_of (machineErrors st),
          prop_initialValues = initialValues h st,
          prop_onSaveAnalytics_action = (if resetOnSave ls then ''Save and add another'' else ''Save''),
          prop_resetOnSave = resetOnSave ls,
          prop_saving = machineSaving st,
          prop_saved = machineSaved st,
          prop_savedRedirect = (if resetOnSave ls then None else Some ''/machines''),
          prop_validationSchema = generateMachineSchema (parametersSchemaOf h (powerType ls)) \<rparr>)"

subsection \<open>The callbacks\<close>

definition onCancel :: "'fp action list" where
  "onCancel = [HistoryPush ''/machines'']"

definition params_of :: "('pp, 'fp) helpers \<Rightarrow> store \<Rightarrow> local_state \<Rightarrow> (string, 'pp) machine_fields
    \<Rightarrow> (model option, 'fp) machine_fields" where
  "params_of h st ls values =
     \<lparr> architecture = architecture values,
       domain = find (\<lambda>d. name d = domain values) (domains st),
       extra_macs = filter (\<lambda>s. s \<noteq> []) (extra_macs values),
       hostname = hostname values,
       min_hwe_kernel = min_hwe_kernel values,
       pool = find (\<lambda>p. name p = pool values) (resourcePools st),
       power_parameters = formatPowerParameters h (powerType ls) (power_parameters values) ''node'',
       power_type = power_type values,
       pxe_mac = pxe_mac values,
       zone = find (\<lambda>z. name z = zone values) (zones st) \<rparr>"

definition onSubmit :: "('pp, 'fp) helpers \<Rightarrow> store \<Rightarrow> local_state \<Rightarrow> (string, 'pp) machine_fields
    \<Rightarrow> 'fp action list \<times> local_state" where
  "onSubmit h st ls values =
     ([MachineCreate (params_of h st ls values)],
      ls\<lparr>savingMachine := SavingName (if hostname values \<noteq> [] then hostname values else ''Machine'')\<rparr>)"

definition onValuesChanged :: "store \<Rightarrow> local_state \<Rightarrow> (string, 'pp) machine_fields \<Rightarrow> local_state" where
  "onValuesChanged st ls values =
     ls\<lparr>powerType := find (\<lambda>t. name t = power_type values) (powerTypes st)\<rparr>"

definition secondarySubmit :: "local_state \<Rightarrow> local_state" where
  "secondarySubmit ls = ls\<lparr>resetOnSave := True\<rparr>"

subsection \<open>What is not among the sources\<close>

text \<open>
  Modelled from the spec: the hook \<^verbatim>\<open>useAddMessage\<close> is imported from
  \<^verbatim>\<open>app/base/hooks\<close>, which is not among the sources. The spec has the
  success of a submission emit a success notification; the component gives the hook
  the condition, the clean-up action, the text and a callback, and the model emits
  the text and the clean-up and runs the callback when the condition holds.
\<close>

definition useAddMessage :: "bool \<Rightarrow> 'fp action \<Rightarrow> string \<Rightarrow> (local_state \<Rightarrow> local_state)
    \<Rightarrow> local_state \<Rightarrow> 'fp action list \<times> local_state" where
  "useAddMessage addCondition cleanup message onMessageAdded ls =
     (if addCondition then ([MessageAdd message, cleanup], onMessageAdded ls) else ([], ls))"

subsection \<open>One step of the component\<close>

text \<open>
  The effects that follow a render: the effect on \<open>resetOnSave\<close> first, then the
  hook of the success message, whose text is the one of that render.
\<close>

definition run_effects :: "store \<Rightarrow> local_state \<Rightarrow> 'fp action list \<times> local_state" where
  "run_effects st ls =
     useAddMessage (machineSaved st) MachineCleanup (success_message ls)
       (\<lambda>l. l\<lparr>savingMachine := SavingFalse\<rparr>) (reset_effect st ls)"

text \<open>Everything that changes the component's state: its four callbacks and its effects.\<close>

datatype 'pp event =
    Cancel
  | Submit "(string, 'pp) machine_fields"
  | ValuesChanged "(string, 'pp) machine_fields"
  | SecondarySubmit
  | Rendered

definition step :: "('pp, 'fp) helpers \<Rightarrow> store \<Rightarrow> 'pp event \<Rightarrow> local_state \<Rightarrow> 'fp action list \<times> local_state" where
  "step h st e ls =
     (case e of
        Cancel \<Rightarrow> (onCancel, ls)
      | Submit values \<Rightarrow> onSubmit h st ls values
      | ValuesChanged values \<Rightarrow> ([], onValuesChanged st ls values)
      | SecondarySubmit \<Rightarrow> ([], secondarySubmit ls)
      | Rendered \<Rightarrow> run_effects st ls)"



section \<open>Concrete inputs\<close>

text \<open>
  The store of the spec's scenario A, with two power types, and form data in which
  every required selector is filled in; the power type, the primary address and the
  secondary addresses are arguments.
\<close>

definition example_helpers :: "(unit, unit) helpers" where
  "example_helpers =
     \<lparr> useAllPowerParameters = (\<lambda>_. ()),
       parametersSchemaOf = (\<lambda>_. []),
       formatPowerParameters = (\<lambda>_ _ _. ()) \<rparr>"

definition example_store :: store where
  "example_store =
     \<lparr> architectures = [''amd64''],
       architecturesLoaded = True,
       defaultMinHweKernel = [],
       defaultMinHweKernelLoaded = True,
       domains = [\<lparr>model_id = 0, name = ''maas''\<rparr>],
       domainsLoaded = True,
       hweKernelsLoaded = True,
       machineSaved = False,
       machineSaving = False,
       machineErrors = NoErrors,
       powerTypes = [\<lparr>model_id = 0, name = ''manual''\<rparr>, \<lparr>model_id = 1, name = ''ipmi''\<rparr>],
       powerTypesLoaded = True,
       resourcePools = [\<lparr>model_id = 0, name = ''default''\<rparr>],
       resourcePoolsLoaded = True,
       zones = [\<lparr>model_id = 0, name = ''default''\<rparr>],
       zonesLoaded = True \<rparr>"

definition example_values :: "string \<Rightarrow> string \<Rightarrow> string list \<Rightarrow> (string, unit) machine_fields" where
  "example_values dname host extras =
     \<lparr> architecture = ''amd64'',
       domain = dname,
       extra_macs = extras,
       hostname = host,
       min_hwe_kernel = [],
       pool = ''default'',
       power_parameters = (),
       power_type = ''manual'',
       pxe_mac = ''AA:BB:CC:DD:EE:FF'',
       zone = ''default'' \<rparr>"

definition example_data :: "yup_value \<Rightarrow> yup_value \<Rightarrow> yup_value list \<Rightarrow> string \<Rightarrow> form_value" where
  "example_data pt mac extras k =
     (if k = ''extra_macs'' then Many extras
      else if k = ''power_parameters'' then Nested (\<lambda>_. None)
      else if k = ''power_type'' then Single pt
      else if k = ''pxe_mac'' then Single mac
      else if k = ''hostname'' \<or> k = ''min_hwe_kernel'' then Single None
      else Single (Some ''default''))"

text \<open>
  A store with two domains of one name, the store after a failed save and the store
  after a successful one. The sequence of events: the user chooses "Save and add
  another" (the secondary submit, then the submit); the save fails and the component
  renders the error; the user chooses the plain "Save machine" (the submit alone).
\<close>

definition duplicate_store :: store where
  "duplicate_store = example_store
     \<lparr>domains := [\<lparr>model_id = 0, name = ''other''\<rparr>, \<lparr>model_id = 1, name = ''maas''\<rparr>,
                  \<lparr>model_id = 2, name = ''maas''\<rparr>]\<rparr>"




section \<open>What the pattern accepts\<close>

lemma hex_digit_consume:
  "consume hex_digit s = (case s of [] \<Rightarrow> None | c # cs \<Rightarrow> if hex_char c then Some cs else None)"
proof (cases s)
  case Nil
  then show ?thesis by (simp add: hex_digit_def)
next
  case (Cons c cs)
  have "list_ex (in_range c) [(CHR ''0'', CHR ''9''), (CHR ''A'', CHR ''F''), (CHR ''a'', CHR ''f'')] = hex_char c"
    by (cases c) (simp add: in_range_def hex_char_def; presburger)
  then show ?thesis
    using Cons by (simp add: hex_digit_def)
qed



lemma is_octet_iff: "is_octet u = (\<exists>a b. u = [a, b] \<and> hex_char a \<and> hex_char b)"
  by (auto simp: is_octet_def numeral_2_eq_2 length_Suc_conv)

lemma octet_consume:
  "(consume (Rep hex_digit 2) s = Some t) = (\<exists>u. is_octet u \<and> s = u @ t)"
  unfolding is_octet_iff
  by (auto simp: numeral_2_eq_2 hex_digit_consume split: list.splits if_splits)

lemma lit_consume: "(consume (Lit a) v = Some t) = (v = a # t)"
  by (cases v) auto

lemma group_consume:
  "(consume (Seq (Rep hex_digit 2) (Lit CHR '':'')) s = Some t) =
     (\<exists>u. is_octet u \<and> s = u @ '':'' @ t)"
proof -
  have "(consume (Seq (Rep hex_digit 2) (Lit CHR '':'')) s = Some t) =
        (\<exists>v. consume (Rep hex_digit 2) s = Some v \<and> consume (Lit CHR '':'') v = Some t)"
    by (simp split: option.splits)
  also have "\<dots> = (\<exists>u. is_octet u \<and> s = u @ '':'' @ t)"
    unfolding octet_consume lit_consume by auto
  finally show ?thesis .
qed

lemma groups_consume:
  "(rep_consume (consume (Seq (Rep hex_digit 2) (Lit CHR '':''))) n s = Some t) =
     (\<exists>us. length us = n \<and> list_all is_octet us \<and> s = concat (map (\<lambda>u. u @ '':'') us) @ t)"
proof (induction n arbitrary: s)
  case 0
  show ?case by auto
next
  case (Suc n)
  have "(rep_consume (consume (Seq (Rep hex_digit 2) (Lit CHR '':''))) (Suc n) s = Some t) =
        (\<exists>v. consume (Seq (Rep hex_digit 2) (Lit CHR '':'')) s = Some v \<and>
             rep_consume (consume (Seq (Rep hex_digit 2) (Lit CHR '':''))) n v = Some t)"
    by (simp split: option.splits)
  also have "\<dots> = (\<exists>u us. is_octet u \<and> length us = n \<and> list_all is_octet us \<and>
        s = u @ '':'' @ concat (map (\<lambda>u. u @ '':'') us) @ t)"
    unfolding Suc.IH group_consume by blast
  also have "\<dots> = (\<exists>us. length us = Suc n \<and> list_all is_octet us \<and>
        s = concat (map (\<lambda>u. u @ '':'') us) @ t)"
  proof (intro iffI; elim exE conjE)
    fix u us
    assume "is_octet u" "length us = n" "list_all is_octet us"
      "s = u @ '':'' @ concat (map (\<lambda>u. u @ '':'') us) @ t"
    then show "\<exists>us. length us = Suc n \<and> list_all is_octet us \<and>
        s = concat (map (\<lambda>u. u @ '':'') us) @ t"
      by (intro exI [of _ "u # us"]) simp
  next
    fix us
    assume l: "length us = Suc n" and o: "list_all is_octet us"
      and s: "s = concat (map (\<lambda>u. u @ '':'') us) @ t"
    from l obtain u us' where us: "us = u # us'" and l': "length us' = n"
      by (auto simp: length_Suc_conv)
    show "\<exists>u us. is_octet u \<and> length us = n \<and> list_all is_octet us \<and>
        s = u @ '':'' @ concat (map (\<lambda>u. u @ '':'') us) @ t"
      using o s l' unfolding us by (intro exI [of _ u] exI [of _ us']) simp
  qed
  finally show ?case .
qed

lemma mac_regex_iff:
  "re_test mac_regex s =
     (\<exists>us u. length us = 5 \<and> list_all is_octet us \<and> is_octet u \<and>
        s = concat (map (\<lambda>u. u @ '':'') us) @ u)"
proof -
  have "re_test mac_regex s =
      (\<exists>t. rep_consume (consume (Seq (Rep hex_digit 2) (Lit CHR '':''))) 5 s = Some t \<and>
           consume (Rep hex_digit 2) t = Some [])"
    by (simp add: re_test_def mac_regex_def split: option.splits)
  also have "\<dots> = (\<exists>us u. length us = 5 \<and> list_all is_octet us \<and> is_octet u \<and>
        s = concat (map (\<lambda>u. u @ '':'') us) @ u)"
    unfolding groups_consume octet_consume by auto
  finally show ?thesis .
qed

section \<open>Lemmas on validation and on the error string\<close>

lemma field_errors_validate_field:
  "field_errors k (validate_field d k' sch) = (if k = k' then validate_field d k' sch else [])"
  by (cases sch) (auto simp: field_errors_def validate_shape_def filter_concat comp_def filter_empty_conv split: form_value.splits option.splits prod.splits intro!: arg_cong[where f=concat] filter_True)

lemma field_errors_validate:
  "field_errors k (validate shape d) =
     concat (map (\<lambda>(k', sch). if k = k' then validate_field d k' sch else []) shape)"
proof (induction shape)
  case Nil
  show ?case by (simp add: validate_def field_errors_def)
next
  case (Cons a shape)
  obtain k' sch where a: "a = (k', sch)" by (cases a)
  have "field_errors k (validate (a # shape) d) =
      field_errors k (validate_field d k' sch) @ field_errors k (validate shape d)"
    by (simp add: validate_def field_errors_def a)
  then show ?case
    using Cons.IH by (simp add: a field_errors_validate_field)
qed

lemma pxe_mac_errors:
  assumes "d ''pxe_mac'' = Single v"
  shows "field_errors ''pxe_mac'' (validate (generateMachineSchema ps) d) =
     map (Pair (Field ''pxe_mac''))
       (run_test (Matches mac_regex ''Invalid MAC address'') v @
        (if single_of (d ''power_type'') \<noteq> Some ''ipmi''
         then run_test (Required ''At least one MAC address required'') v else []))"
  using assms
  by (simp add: field_errors_validate generateMachineSchema_def validate_string_def)

lemma enumerate_errors:
  "concat (map (\<lambda>(i, v). map (\<lambda>m. (Index k i, m)) (run_test (Matches r msg) v)) (enumerate 0 vs)) =
     map (\<lambda>i. (Index k i, msg))
       (filter (\<lambda>i. case vs ! i of None \<Rightarrow> False | Some s \<Rightarrow> \<not> re_test r s) [0..<length vs])"
proof (induction vs rule: rev_induct)
  case Nil
  show ?case by simp
next
  case (snoc x xs)
  have f: "\<And>y. filter (\<lambda>i. case (xs @ [y]) ! i of None \<Rightarrow> False | Some s \<Rightarrow> \<not> re_test r s) [0..<length xs] =
           filter (\<lambda>i. case xs ! i of None \<Rightarrow> False | Some s \<Rightarrow> \<not> re_test r s) [0..<length xs]"
    by (rule filter_cong) (simp_all add: nth_append)
  show ?case
    using snoc.IH by (cases x) (simp_all add: enumerate_append_eq f)
qed

lemma extra_macs_errors:
  assumes "d ''extra_macs'' = Many vs"
  shows "field_errors ''extra_macs'' (validate (generateMachineSchema ps) d) =
     map (\<lambda>i. (Index ''extra_macs'' i, ''Invalid MAC address''))
       (filter (\<lambda>i. case vs ! i of None \<Rightarrow> False | Some s \<Rightarrow> \<not> re_test mac_regex s) [0..<length vs])"
  using assms
  by (simp add: field_errors_validate generateMachineSchema_def validate_string_def enumerate_errors)

lemma foldl_messages:
  "foldl (\<lambda>errors key. errors @ (f key @ sep)) acc ks = acc @ concat (map (\<lambda>key. f key @ sep) ks)"
  by (induction ks arbitrary: acc) simp_all

lemma lookup_message_distinct:
  "distinct (map fst kvs) \<Longrightarrow> kv \<in> set kvs \<Longrightarrow> lookup_message kvs (fst kv) = snd kv"
  by (cases kv) (simp add: lookup_message_def)

lemma errors_of_object:
  assumes "distinct (map fst kvs)"
  shows "errors_of (ErrorObject kvs) = concat (map (\<lambda>kv. snd kv @ '' '') kvs)"
proof -
  have "map (\<lambda>key. lookup_message kvs key @ '' '') (map fst kvs) = map (\<lambda>kv. snd kv @ '' '') kvs"
    using assms by (simp add: lookup_message_distinct)
  then show ?thesis
    by (simp add: errors_of_def foldl_messages del: map_map)
qed

section \<open>The claims\<close>

subsection \<open>C1: names that are not in the loaded collections\<close>

lemma find_first_of_filter:
  "find P xs = (case filter P xs of [] \<Rightarrow> None | x # _ \<Rightarrow> Some x)"
  by (induction xs) simp_all

text \<open>
  C1 asks that building the command fail with a MappingError, and nothing be dispatched,
  when the domain, the resource pool or the zone named in the values is not in the loaded
  collection. The callback has no such check: with a domain name that is not loaded it
  dispatches the command, the domain being \<^verbatim>\<open>undefined\<close>.
\<close>

theorem onSubmit_missing_domain_dispatched:
  "domain (example_values ''gone'' ''node1'' []) \<notin> name ` set (domains example_store) \<and>
   fst (onSubmit example_helpers example_store initial_state (example_values ''gone'' ''node1'' [])) =
     [MachineCreate
        \<lparr> architecture = ''amd64'', domain = None, extra_macs = [], hostname = ''node1'',
          min_hwe_kernel = [], pool = Some \<lparr>model_id = 0, name = ''default''\<rparr>,
          power_parameters = (), power_type = ''manual'', pxe_mac = ''AA:BB:CC:DD:EE:FF'',
          zone = Some \<lparr>model_id = 0, name = ''default''\<rparr> \<rparr>]"
  by (simp add: onSubmit_def params_of_def example_values_def example_store_def
      example_helpers_def initial_state_def)

text \<open>
  C1, as amended: for every submitted value set \<^verbatim>\<open>onSubmit\<close> dispatches exactly
  one creation command, whether the names are found or not. The command's domain,
  resource pool and zone are each the first entity of the loaded collection whose name
  is the submitted name, and \<^verbatim>\<open>undefined\<close> exactly when no loaded entity has that
  name.
\<close>

theorem onSubmit_dispatches_unchecked:
  "fst (onSubmit h st ls values) = [MachineCreate (params_of h st ls values)] \<and>
   domain (params_of h st ls values) =
     (case filter (\<lambda>d. name d = domain values) (domains st) of [] \<Rightarrow> None | x # _ \<Rightarrow> Some x) \<and>
   pool (params_of h st ls values) =
     (case filter (\<lambda>p. name p = pool values) (resourcePools st) of [] \<Rightarrow> None | x # _ \<Rightarrow> Some x) \<and>
   zone (params_of h st ls values) =
     (case filter (\<lambda>z. name z = zone values) (zones st) of [] \<Rightarrow> None | x # _ \<Rightarrow> Some x) \<and>
   (domain (params_of h st ls values) = None) = (domain values \<notin> name ` set (domains st)) \<and>
   (pool (params_of h st ls values) = None) = (pool values \<notin> name ` set (resourcePools st)) \<and>
   (zone (params_of h st ls values) = None) = (zone values \<notin> name ` set (zones st))"
proof -
  have 1: "fst (onSubmit h st ls values) = [MachineCreate (params_of h st ls values)]"
    by (simp add: onSubmit_def)
  have 2: "domain (params_of h st ls values) =
     (case filter (\<lambda>d. name d = domain values) (domains st) of [] \<Rightarrow> None | x # _ \<Rightarrow> Some x)"
    by (simp add: params_of_def find_first_of_filter)
  have 3: "pool (params_of h st ls values) =
     (case filter (\<lambda>p. name p = pool values) (resourcePools st) of [] \<Rightarrow> None | x # _ \<Rightarrow> Some x)"
    by (simp add: params_of_def find_first_of_filter)
  have 4: "zone (params_of h st ls values) =
     (case filter (\<lambda>z. name z = zone values) (zones st) of [] \<Rightarrow> None | x # _ \<Rightarrow> Some x)"
    by (simp add: params_of_def find_first_of_filter)
  have 5: "(domain (params_of h st ls values) = None) = (domain values \<notin> name ` set (domains st))"
    by (force simp: params_of_def find_None_iff)
  have 6: "(pool (params_of h st ls values) = None) = (pool values \<notin> name ` set (resourcePools st))"
    by (force simp: params_of_def find_None_iff)
  have 7: "(zone (params_of h st ls values) = None) = (zone values \<notin> name ` set (zones st))"
    by (force simp: params_of_def find_None_iff)
  show ?thesis
    using 1 2 3 4 5 6 7 by blast
qed

text \<open>Of two loaded domains of the submitted name the command carries the first.\<close>

theorem onSubmit_dispatches_unchecked_witness:
  "fst (onSubmit example_helpers duplicate_store initial_state (example_values ''maas'' ''node1'' [])) =
     [MachineCreate
        \<lparr> architecture = ''amd64'', domain = Some \<lparr>model_id = 1, name = ''maas''\<rparr>,
          extra_macs = [], hostname = ''node1'',
          min_hwe_kernel = [], pool = Some \<lparr>model_id = 0, name = ''default''\<rparr>,
          power_parameters = (), power_type = ''manual'', pxe_mac = ''AA:BB:CC:DD:EE:FF'',
          zone = Some \<lparr>model_id = 0, name = ''default''\<rparr> \<rparr>] \<and>
   domain (params_of example_helpers duplicate_store initial_state
      (example_values ''maas'' ''node1'' [])) = Some \<lparr>model_id = 1, name = ''maas''\<rparr>"
proof -
  have f: "filter (\<lambda>d. name d = domain (example_values ''maas'' ''node1'' [])) (domains duplicate_store) =
      [\<lparr>model_id = 1, name = ''maas''\<rparr>, \<lparr>model_id = 2, name = ''maas''\<rparr>]"
    by (simp add: duplicate_store_def example_store_def example_values_def)
  have d: "domain (params_of example_helpers duplicate_store initial_state
      (example_values ''maas'' ''node1'' [])) = Some \<lparr>model_id = 1, name = ''maas''\<rparr>"
    using onSubmit_dispatches_unchecked [of example_helpers duplicate_store initial_state
        "example_values ''maas'' ''node1'' []"]
    unfolding f by simp
  have c: "fst (onSubmit example_helpers duplicate_store initial_state (example_values ''maas'' ''node1'' [])) =
     [MachineCreate
        \<lparr> architecture = ''amd64'', domain = Some \<lparr>model_id = 1, name = ''maas''\<rparr>,
          extra_macs = [], hostname = ''node1'',
          min_hwe_kernel = [], pool = Some \<lparr>model_id = 0, name = ''default''\<rparr>,
          power_parameters = (), power_type = ''manual'', pxe_mac = ''AA:BB:CC:DD:EE:FF'',
          zone = Some \<lparr>model_id = 0, name = ''default''\<rparr> \<rparr>]"
    by (simp add: onSubmit_def params_of_def example_values_def example_store_def
        duplicate_store_def example_helpers_def initial_state_def)
  show ?thesis using c d by simp
qed

subsection \<open>C2: the primary address is required unless the power type is ipmi\<close>

text \<open>
  C2: the schema reports the primary address \<^verbatim>\<open>pxe_mac\<close> as required exactly
  when the selected power type is not \<^verbatim>\<open>"ipmi"\<close> and the address is absent (or the
  empty string, which \<^verbatim>\<open>required\<close> treats alike); with \<^verbatim>\<open>"ipmi"\<close>
  selected an absent primary address has no error.
\<close>

theorem pxe_mac_required_unless_ipmi:
  assumes "d ''pxe_mac'' = Single v"
  shows "((Field ''pxe_mac'', ''At least one MAC address required'')
            \<in> set (validate (generateMachineSchema ps) d)) =
         (single_of (d ''power_type'') \<noteq> Some ''ipmi'' \<and> (v = None \<or> v = Some [])) \<and>
         (v = None \<longrightarrow>
            field_errors ''pxe_mac'' (validate (generateMachineSchema ps) d) =
              (if single_of (d ''power_type'') = Some ''ipmi'' then []
               else [(Field ''pxe_mac'', ''At least one MAC address required'')]))"
proof -
  have m: "((Field ''pxe_mac'', ''At least one MAC address required'')
            \<in> set (validate (generateMachineSchema ps) d)) =
        ((Field ''pxe_mac'', ''At least one MAC address required'')
            \<in> set (field_errors ''pxe_mac'' (validate (generateMachineSchema ps) d)))"
    by (simp add: field_errors_def)
  show ?thesis
    unfolding m pxe_mac_errors [of d v ps, OF assms]
    by (cases v) (auto split: if_splits)
qed

text \<open>Scenario B of the spec, and the same values with the power type "manual".\<close>

theorem pxe_mac_required_unless_ipmi_witness:
  "validate (generateMachineSchema []) (example_data (Some ''ipmi'') None []) = [] \<and>
   field_errors ''pxe_mac'' (validate (generateMachineSchema []) (example_data (Some ''ipmi'') None [])) = [] \<and>
   (Field ''pxe_mac'', ''At least one MAC address required'')
      \<in> set (validate (generateMachineSchema []) (example_data (Some ''manual'') None []))"
proof -
  have a: "example_data (Some ''ipmi'') None [] ''pxe_mac'' = Single None"
    and b: "example_data (Some ''manual'') None [] ''pxe_mac'' = Single None"
    by (simp_all add: example_data_def)
  have c: "validate (generateMachineSchema []) (example_data (Some ''ipmi'') None []) = []"
    by (simp add: validate_def validate_shape_def generateMachineSchema_def example_data_def validate_string_def single_of_def)
  show ?thesis
    using pxe_mac_required_unless_ipmi [of "example_data (Some ''ipmi'') None []" None "[]", OF a]
      pxe_mac_required_unless_ipmi [of "example_data (Some ''manual'') None []" None "[]", OF b] c
    by (simp add: example_data_def single_of_def)
qed

subsection \<open>C3: the displayed error string\<close>

text \<open>
  C3: a failure payload that is a string is displayed verbatim; one that is an object
  of messages is displayed as the messages in the order of its keys, each followed by a
  space; the payload \<^verbatim>\<open>{pool: "Pool not found"}\<close> is displayed as
  \<^verbatim>\<open>"Pool not found "\<close>. The string is the \<^verbatim>\<open>errors\<close> prop of the form.
  The keys of an object are distinct.
\<close>

theorem errors_normalised:
  "errors_of (ErrorString s) = s \<and>
   (distinct (map fst kvs) \<longrightarrow>
      errors_of (ErrorObject kvs) = concat (map (\<lambda>kv. snd kv @ '' '') kvs)) \<and>
   errors_of (ErrorObject [(''pool'', ''Pool not found'')]) = ''Pool not found '' \<and>
   (case AddMachineForm h st ls of
      Spinner t \<Rightarrow> \<not> allLoaded st
    | FormCard p \<Rightarrow> prop_errors p = errors_of (machineErrors st))"
proof -
  have 1: "errors_of (ErrorString s) = s"
    by (simp add: errors_of_def)
  have 3: "errors_of (ErrorObject [(''pool'', ''Pool not found'')]) = ''Pool not found ''"
    by (simp add: errors_of_def lookup_message_def)
  have 4: "(case AddMachineForm h st ls of
      Spinner t \<Rightarrow> \<not> allLoaded st
    | FormCard p \<Rightarrow> prop_errors p = errors_of (machineErrors st))"
    by (simp add: AddMachineForm_def)
  show ?thesis
    using 1 3 4 errors_of_object by blast
qed

theorem errors_normalised_witness:
  "distinct (map fst [(''hostname'', ''Bad name''), (''pool'', ''Pool not found'')]) \<and>
   errors_of (ErrorObject [(''hostname'', ''Bad name''), (''pool'', ''Pool not found'')]) =
     ''Bad name Pool not found '' \<and>
   errors_of (ErrorString ''Boom'') = ''Boom''"
  using errors_normalised [where s = "''Boom''"
      and kvs = "[(''hostname'', ''Bad name''), (''pool'', ''Pool not found'')]"
      and h = example_helpers and st = example_store and ls = initial_state]
  by simp

subsection \<open>C4: the readiness gate\<close>

text \<open>
  C4: \<^verbatim>\<open>allLoaded\<close> holds if and only if each of the seven collections is loaded;
  the component renders the spinner, and nothing else, exactly while it does not hold,
  and the form exactly when it holds. \<^verbatim>\<open>allLoaded\<close> is a total function to
  \<open>bool\<close>: the check has no failing branch.
\<close>

theorem allLoaded_gates_form:
  "allLoaded st =
     (architecturesLoaded st \<and> defaultMinHweKernelLoaded st \<and> domainsLoaded st \<and>
      hweKernelsLoaded st \<and> powerTypesLoaded st \<and> resourcePoolsLoaded st \<and> zonesLoaded st) \<and>
   (AddMachineForm h st ls = Spinner ''Loading'') = (\<not> allLoaded st) \<and>
   (\<exists>p. AddMachineForm h st ls = FormCard p) = allLoaded st"
  by (simp add: allLoaded_def AddMachineForm_def)

subsection \<open>C5: secondary addresses are validated one by one\<close>

text \<open>
  C5: the errors of \<^verbatim>\<open>extra_macs\<close> are one "Invalid MAC address" for each entry
  that is a string and does not match the pattern, under the index of that entry, in
  order, and nothing else: whether an entry has an error depends on that entry alone.
\<close>

theorem extra_macs_validated_independently:
  assumes "d ''extra_macs'' = Many vs"
  shows "field_errors ''extra_macs'' (validate (generateMachineSchema ps) d) =
     map (\<lambda>i. (Index ''extra_macs'' i, ''Invalid MAC address''))
       (filter (\<lambda>i. case vs ! i of None \<Rightarrow> False | Some s \<Rightarrow> \<not> re_test mac_regex s) [0..<length vs])"
  using assms by (rule extra_macs_errors)

text \<open>Scenario C of the spec: one valid and one invalid entry, one error, on the second.\<close>

theorem extra_macs_validated_independently_witness:
  "validate (generateMachineSchema [])
     (example_data (Some ''ipmi'') None [Some ''AA:BB:CC:DD:EE:FF'', Some ''not-a-mac'']) =
     [(Index ''extra_macs'' 1, ''Invalid MAC address'')] \<and>
   field_errors ''extra_macs'' (validate (generateMachineSchema [])
     (example_data (Some ''ipmi'') None [Some ''AA:BB:CC:DD:EE:FF'', Some ''not-a-mac''])) =
     [(Index ''extra_macs'' 1, ''Invalid MAC address'')]"
proof -
  let ?d = "example_data (Some ''ipmi'') None [Some ''AA:BB:CC:DD:EE:FF'', Some ''not-a-mac'']"
  have a: "?d ''extra_macs'' = Many [Some ''AA:BB:CC:DD:EE:FF'', Some ''not-a-mac'']"
    by (simp add: example_data_def)
  have t1: "re_test mac_regex ''AA:BB:CC:DD:EE:FF''" by code_simp
  have t2: "\<not> re_test mac_regex ''not-a-mac''" by code_simp
  have u: "[0..<length [Some ''AA:BB:CC:DD:EE:FF'', Some ''not-a-mac'']] = [0, Suc 0]"
    by (simp add: upt_rec)
  have f: "field_errors ''extra_macs'' (validate (generateMachineSchema []) ?d) =
     [(Index ''extra_macs'' 1, ''Invalid MAC address'')]"
    using extra_macs_validated_independently [of ?d "[Some ''AA:BB:CC:DD:EE:FF'', Some ''not-a-mac'']" "[]", OF a] unfolding u by (simp add: t1 t2)
  have w: "validate (generateMachineSchema []) ?d = [(Index ''extra_macs'' 1, ''Invalid MAC address'')]"
    by (simp add: validate_def validate_shape_def generateMachineSchema_def example_data_def validate_string_def
        single_of_def t1 t2)
  show ?thesis using f w by simp
qed

subsection \<open>C6: the initial values of the selectors\<close>

lemma first_or_empty_hd: "first_or_empty xs = (if xs = [] then [] else hd xs)"
  by (cases xs) (simp_all add: first_or_empty_def)

lemma first_or_empty_map: "first_or_empty (map f xs) = (if xs = [] then [] else f (hd xs))"
  by (cases xs) (simp_all add: first_or_empty_def)

text \<open>
  C6: the initial value of the architecture is the first architecture, and the initial
  values of domain, resource pool and zone are the names of the first domain, resource
  pool and zone, where the collection has an item; each is the empty string where its
  collection is empty. They are the initial values of the form that is rendered once
  everything is loaded.
\<close>

theorem initialValues_first_item:
  "architecture (initialValues h st) =
     (if architectures st = [] then [] else hd (architectures st)) \<and>
   domain (initialValues h st) =
     (if domains st = [] then [] else name (hd (domains st))) \<and>
   pool (initialValues h st) =
     (if resourcePools st = [] then [] else name (hd (resourcePools st))) \<and>
   zone (initialValues h st) =
     (if zones st = [] then [] else name (hd (zones st))) \<and>
   (\<exists>p. AddMachineForm h st ls = FormCard p \<and> prop_initialValues p = initialValues h st) = allLoaded st"
proof -
  have 1: "architecture (initialValues h st) =
     (if architectures st = [] then [] else hd (architectures st))"
    by (simp add: initialValues_def first_or_empty_hd)
  have 2: "domain (initialValues h st) =
     (if domains st = [] then [] else name (hd (domains st)))"
    by (simp add: initialValues_def first_or_empty_map)
  have 3: "pool (initialValues h st) =
     (if resourcePools st = [] then [] else name (hd (resourcePools st)))"
    by (simp add: initialValues_def first_or_empty_map)
  have 4: "zone (initialValues h st) =
     (if zones st = [] then [] else name (hd (zones st)))"
    by (simp add: initialValues_def first_or_empty_map)
  have 5: "(\<exists>p. AddMachineForm h st ls = FormCard p \<and> prop_initialValues p = initialValues h st) = allLoaded st"
    by (simp add: AddMachineForm_def)
  show ?thesis
    using 1 2 3 4 5 by blast
qed

text \<open>Scenario A of the spec, and the same store without zones.\<close>

theorem initialValues_first_item_witness:
  "architecture (initialValues example_helpers example_store) = ''amd64'' \<and>
   domain (initialValues example_helpers example_store) = ''maas'' \<and>
   pool (initialValues example_helpers example_store) = ''default'' \<and>
   zone (initialValues example_helpers example_store) = ''default'' \<and>
   zone (initialValues example_helpers (example_store\<lparr>zones := []\<rparr>)) = []"
  using initialValues_first_item [of example_helpers example_store initial_state]
    initialValues_first_item [of example_helpers "example_store\<lparr>zones := []\<rparr>" initial_state]
  by (simp add: example_store_def)

subsection \<open>C7: resetOnSave\<close>




subsection \<open>C8: empty secondary addresses are stripped\<close>

text \<open>
  C8: the command's \<^verbatim>\<open>extra_macs\<close> is the submitted list without its empty
  entries, in the original order: no entry of it is empty, and every non-empty string
  occurs in it as often as in the submitted list.
\<close>

theorem extra_macs_filtered:
  "fst (onSubmit h st ls values) = [MachineCreate (params_of h st ls values)] \<and>
   extra_macs (params_of h st ls values) = filter (\<lambda>s. s \<noteq> []) (extra_macs values) \<and>
   [] \<notin> set (extra_macs (params_of h st ls values)) \<and>
   (\<forall>s. s \<noteq> [] \<longrightarrow>
      count_list (extra_macs (params_of h st ls values)) s = count_list (extra_macs values) s)"
proof -
  have c: "\<And>xs s. s \<noteq> [] \<Longrightarrow> count_list (filter (\<lambda>s. s \<noteq> []) xs) s = count_list xs (s :: string)"
  proof -
    fix xs :: "string list" and s :: string
    assume "s \<noteq> []"
    then show "count_list (filter (\<lambda>s. s \<noteq> []) xs) s = count_list xs s"
      by (induction xs) auto
  qed
  show ?thesis
    by (simp add: onSubmit_def params_of_def c)
qed

theorem extra_macs_filtered_witness:
  "extra_macs (params_of example_helpers example_store initial_state
      (example_values ''maas'' ''node1'' ['''', ''AA:BB:CC:DD:EE:01'', '''', ''AA:BB:CC:DD:EE:02''])) =
     [''AA:BB:CC:DD:EE:01'', ''AA:BB:CC:DD:EE:02'']"
  using extra_macs_filtered [of example_helpers example_store initial_state
      "example_values ''maas'' ''node1'' ['''', ''AA:BB:CC:DD:EE:01'', '''', ''AA:BB:CC:DD:EE:02'']"]
  by (simp add: example_values_def)

subsection \<open>C9: the hostname in the message and in the command\<close>

text \<open>
  C9: the success message names the submitted hostname, or "Machine" when the hostname
  was left empty, and it is the message emitted when the machine is saved; the
  command's hostname is the submitted hostname as it is, the empty string included.
\<close>

theorem hostname_fallback_in_message_only:
  "fst (onSubmit h st ls values) = [MachineCreate (params_of h st ls values)] \<and>
   hostname (params_of h st ls values) = hostname values \<and>
   success_message (snd (onSubmit h st ls values)) =
     (if hostname values = [] then ''Machine'' else hostname values) @ '' added successfully.'' \<and>
   fst (step h (st\<lparr>machineSaved := True\<rparr>) Rendered (snd (onSubmit h st ls values))) =
     [MessageAdd ((if hostname values = [] then ''Machine'' else hostname values) @ '' added successfully.''),
      MachineCleanup]"
  by (simp add: onSubmit_def params_of_def success_message_def saving_text_def step_def
      run_effects_def useAddMessage_def)

theorem hostname_fallback_in_message_only_witness:
  "success_message (snd (onSubmit example_helpers example_store initial_state
      (example_values ''maas'' '''' []))) = ''Machine added successfully.'' \<and>
   hostname (params_of example_helpers example_store initial_state
      (example_values ''maas'' '''' [])) = '''' \<and>
   success_message (snd (onSubmit example_helpers example_store initial_state
      (example_values ''maas'' ''node1'' []))) = ''node1 added successfully.''"
  using hostname_fallback_in_message_only [of example_helpers example_store initial_state "example_values ''maas'' '''' []"]
    hostname_fallback_in_message_only [of example_helpers example_store initial_state "example_values ''maas'' ''node1'' []"]
  by (simp add: example_values_def)

subsection \<open>C10: a given primary address is always checked against the pattern\<close>

text \<open>
  C10: a primary address that is a non-empty string has no error when it matches the
  pattern and the error "Invalid MAC address" when it does not, whatever the power
  type is, \<^verbatim>\<open>"ipmi"\<close> included.
\<close>

theorem pxe_mac_pattern_always_checked:
  assumes "d ''pxe_mac'' = Single (Some s)" and "s \<noteq> []"
  shows "field_errors ''pxe_mac'' (validate (generateMachineSchema ps) d) =
     (if re_test mac_regex s then [] else [(Field ''pxe_mac'', ''Invalid MAC address'')])"
  unfolding pxe_mac_errors [of d "Some s" ps, OF assms(1)]
  using assms(2) by simp

theorem pxe_mac_pattern_always_checked_witness:
  "validate (generateMachineSchema []) (example_data (Some ''ipmi'') (Some ''not-a-mac'') []) =
     [(Field ''pxe_mac'', ''Invalid MAC address'')] \<and>
   field_errors ''pxe_mac'' (validate (generateMachineSchema [])
     (example_data (Some ''ipmi'') (Some ''not-a-mac'') [])) =
     [(Field ''pxe_mac'', ''Invalid MAC address'')] \<and>
   field_errors ''pxe_mac'' (validate (generateMachineSchema [])
     (example_data (Some ''manual'') (Some ''not-a-mac'') [])) =
     [(Field ''pxe_mac'', ''Invalid MAC address'')] \<and>
   field_errors ''pxe_mac'' (validate (generateMachineSchema [])
     (example_data (Some ''ipmi'') (Some ''aa:bb:cc:dd:ee:0f'') [])) = []"
proof -
  have t1: "re_test mac_regex ''aa:bb:cc:dd:ee:0f''" by code_simp
  have t2: "\<not> re_test mac_regex ''not-a-mac''" by code_simp
  have a: "example_data (Some ''ipmi'') (Some ''not-a-mac'') [] ''pxe_mac'' = Single (Some ''not-a-mac'')"
    and b: "example_data (Some ''manual'') (Some ''not-a-mac'') [] ''pxe_mac'' = Single (Some ''not-a-mac'')"
    and c: "example_data (Some ''ipmi'') (Some ''aa:bb:cc:dd:ee:0f'') [] ''pxe_mac'' = Single (Some ''aa:bb:cc:dd:ee:0f'')"
    by (simp_all add: example_data_def)
  have w: "validate (generateMachineSchema []) (example_data (Some ''ipmi'') (Some ''not-a-mac'') []) =
     [(Field ''pxe_mac'', ''Invalid MAC address'')]"
    by (simp add: validate_def validate_shape_def generateMachineSchema_def example_data_def validate_string_def
        single_of_def t2)
  show ?thesis
    using w
      pxe_mac_pattern_always_checked [of "example_data (Some ''ipmi'') (Some ''not-a-mac'') []" "''not-a-mac''" "[]", OF a]
      pxe_mac_pattern_always_checked [of "example_data (Some ''manual'') (Some ''not-a-mac'') []" "''not-a-mac''" "[]", OF b]
      pxe_mac_pattern_always_checked [of "example_data (Some ''ipmi'') (Some ''aa:bb:cc:dd:ee:0f'') []" "''aa:bb:cc:dd:ee:0f''" "[]", OF c]
    by (simp add: t1 t2)
qed

end
